theory Spec2Isabelle
  imports Complex_Main
begin

section \<open>Values shared by the two source files\<close>

text \<open>
  A Go \<open>error\<close> value is identified with the message its \<open>Error()\<close> method returns;
  the nil error is \<open>None\<close> of \<open>error option\<close>.
\<close>

datatype error = Err string

fun Error :: "error \<Rightarrow> string" where
  "Error (Err msg) = msg"

text \<open>
  A function whose only declared result is an \<open>error\<close> either returns (nil or an error)
  or does not return because a run-time panic unwinds it.
\<close>

datatype outcome = Return "error option" | Panic string

text \<open>
  \<open>glob.Glob\<close> is an interface with the single method \<open>Match(string) bool\<close>; the nil
  interface is \<open>None\<close>.
\<close>

type_synonym Glob = "(string \<Rightarrow> bool) option"

text \<open>The dynamic value stored in a \<open>map[string]interface{}\<close> of fields.\<close>

datatype field_value = StringValue string | IntValue int | FloatValue real

text \<open>
  Modelled from the spec: \<open>telegraf.Metric\<close> and \<open>telegraf.NewMetric\<close> are not among the
  sources. Section 3 describes a Measurement as a name, a tag mapping, a field mapping and
  a timestamp, and section 4.3 says "Build Measurement{name:"grok", tags, fields,
  timestamp: now}".
\<close>

record Metric =
  Name :: string
  Tags :: "string \<rightharpoonup> string"
  Fields :: "string \<rightharpoonup> field_value"
  Time :: nat

definition NewMetric ::
  "string \<Rightarrow> (string \<rightharpoonup> string) \<Rightarrow> (string \<rightharpoonup> field_value) \<Rightarrow> nat \<Rightarrow> error + Metric" where
  "NewMetric name tags flds t = Inr \<lparr>Name = name, Tags = tags, Fields = flds, Time = t\<rparr>"

section \<open>The libraries the sources call\<close>

text \<open>
  The packages below are imported by the two source files and are not part of them; each
  function is a parameter of the model, with the Go signature it is called at. A Go call
  with results \<open>(x, err)\<close> is a pair when the source stores \<open>x\<close> whatever \<open>err\<close> is, and a
  sum when the source looks at \<open>x\<close> only after \<open>err == nil\<close>. A method that mutates its
  receiver returns the receiver's new state. \<open>'g\<close> is the state of a \<open>*grok.Grok\<close>,
  \<open>'gp\<close> a \<open>*globpath.GlobPath\<close> and \<open>'t\<close> a \<open>*tail.Tail\<close>.

  The result of \<open>Parse\<close> and of \<open>Match\<close> is a Go map; it is given as the list of its
  entries in the order in which the \<open>range\<close> statement of the caller visits them. A Go
  map holds every key once, so the keys of such a list are distinct.
\<close>

record SeekInfo =
  Offset :: int
  Whence :: int

record tail_Config =
  ReOpen :: bool
  Follow :: bool
  Location :: SeekInfo

record ('g, 'gp, 't) lib =
  grok_NewWithConfig :: "'g \<times> error option"
  grok_AddPatternsFromPath :: "'g \<Rightarrow> string \<Rightarrow> 'g \<times> error option"
  grok_AddPatternsFromMap :: "'g \<Rightarrow> (string \<rightharpoonup> string) \<Rightarrow> 'g \<times> error option"
  grok_Parse :: "'g \<Rightarrow> string \<Rightarrow> string \<Rightarrow> error + (string \<times> string) list"
  internal_CompileFilter :: "string list \<Rightarrow> Glob \<times> error option"
  globpath_Compile :: "string \<Rightarrow> 'gp \<times> error option"
  globpath_Match :: "'gp \<Rightarrow> string list"
  tail_TailFile :: "string \<Rightarrow> tail_Config \<Rightarrow> error + 't"
  tail_Stop :: "'t \<Rightarrow> error option"
  tail_Filename :: "'t \<Rightarrow> string"
  fmt_Errorf :: "string \<Rightarrow> error"

section \<open>grok/grok.go\<close>

record 'g Parser =
  Pattern :: string
  CustomPatterns :: string
  CustomPatternFile :: string
  TagKeys :: "string list"
  tagKeys :: Glob
  FieldKeysStr :: "string list"
  fieldKeysStr :: Glob
  FieldKeysInt :: "string list"
  fieldKeysInt :: Glob
  FieldKeysFloat :: "string list"
  fieldKeysFloat :: Glob
  g_grok :: 'g

subsection \<open>The standard-library string functions used by \<open>addCustomPatterns\<close>\<close>

text \<open>
  \<open>bufio.Scanner\<close> with the default split function \<open>ScanLines\<close>: the input is cut at
  every line feed, one trailing carriage return is dropped from each line, and an empty
  last line is not delivered. A token that does not fit into the scanner's buffer of
  \<open>MaxScanTokenSize\<close> bytes ends the scan; the source never asks \<open>scanner.Err()\<close>.
\<close>

definition MaxScanTokenSize :: nat where
  "MaxScanTokenSize = 64 * 1024"

fun split_lf :: "string \<Rightarrow> string list" where
  "split_lf [] = [[]]"
| "split_lf (c # cs) =
     (if c = CHR 0x0A then [] # split_lf cs
      else (case split_lf cs of [] \<Rightarrow> [[c]] | s # ss \<Rightarrow> (c # s) # ss))"

definition dropCR :: "string \<Rightarrow> string" where
  "dropCR s = (if s \<noteq> [] \<and> last s = CHR 0x0D then butlast s else s)"

fun scan_tokens :: "string list \<Rightarrow> string list" where
  "scan_tokens [] = []"
| "scan_tokens [s] = (if s = [] \<or> MaxScanTokenSize \<le> length s then [] else [dropCR s])"
| "scan_tokens (s # ss) =
     (if MaxScanTokenSize < length s + 1 then [] else dropCR s # scan_tokens ss)"

definition Scanner_lines :: "string \<Rightarrow> string list" where
  "Scanner_lines text = scan_tokens (split_lf text)"

text \<open>
  \<open>strings.TrimSpace\<close> removes the leading and trailing runes for which
  \<open>unicode.IsSpace\<close> holds. A Go string is a byte sequence, so the white-space runes are
  listed by their UTF-8 encodings: the six ASCII ones, U+0085, U+00A0, U+1680,
  U+2000 to U+200A, U+2028, U+2029, U+202F, U+205F and U+3000.
\<close>

definition space_runes :: "string list" where
  "space_runes =
     [[CHR 0x09], [CHR 0x0A], [CHR 0x0B], [CHR 0x0C], [CHR 0x0D], [CHR 0x20],
      [CHR 0xC2, CHR 0x85], [CHR 0xC2, CHR 0xA0],
      [CHR 0xE1, CHR 0x9A, CHR 0x80],
      [CHR 0xE2, CHR 0x80, CHR 0x80], [CHR 0xE2, CHR 0x80, CHR 0x81],
      [CHR 0xE2, CHR 0x80, CHR 0x82], [CHR 0xE2, CHR 0x80, CHR 0x83],
      [CHR 0xE2, CHR 0x80, CHR 0x84], [CHR 0xE2, CHR 0x80, CHR 0x85],
      [CHR 0xE2, CHR 0x80, CHR 0x86], [CHR 0xE2, CHR 0x80, CHR 0x87],
      [CHR 0xE2, CHR 0x80, CHR 0x88], [CHR 0xE2, CHR 0x80, CHR 0x89],
      [CHR 0xE2, CHR 0x80, CHR 0x8A],
      [CHR 0xE2, CHR 0x80, CHR 0xA8], [CHR 0xE2, CHR 0x80, CHR 0xA9],
      [CHR 0xE2, CHR 0x80, CHR 0xAF],
      [CHR 0xE2, CHR 0x81, CHR 0x9F],
      [CHR 0xE3, CHR 0x80, CHR 0x80]]"

text \<open>The number of bytes of the rune from \<open>rs\<close> that \<open>s\<close> starts with, or 0.\<close>

fun rune_width :: "string list \<Rightarrow> string \<Rightarrow> nat" where
  "rune_width [] s = 0"
| "rune_width (r # rs) s =
     (if r \<noteq> [] \<and> take (length r) s = r then length r else rune_width rs s)"

function TrimLeft :: "string list \<Rightarrow> string \<Rightarrow> string" where
  "TrimLeft rs s = (if rune_width rs s = 0 then s else TrimLeft rs (drop (rune_width rs s) s))"
  by pat_completeness auto
termination
proof (relation "measure (\<lambda>(rs, s). length s)")
  show "wf (measure (\<lambda>(rs, s). length s))" by simp
next
  fix rs :: "string list" and s :: string
  assume pos: "rune_width rs s \<noteq> 0"
  have "rune_width rs s \<le> length s"
  proof (induction rs)
    case Nil
    show ?case by simp
  next
    case (Cons r rs)
    have "take (length r) s = r \<Longrightarrow> length r \<le> length s"
      by (metis length_take min.cobounded1)
    with Cons show ?case by simp
  qed
  with pos show "((rs, drop (rune_width rs s) s), (rs, s)) \<in> measure (\<lambda>(rs, s). length s)"
    by simp
qed

definition TrimSpace :: "string \<Rightarrow> string" where
  "TrimSpace s = rev (TrimLeft (map rev space_runes) (rev (TrimLeft space_runes s)))"

text \<open>
  \<open>strings.SplitN(l, " ", 2)\<close>: at most two pieces, cut at the first space; a string
  without a space is the only piece.
\<close>

definition SplitN2 :: "string \<Rightarrow> string list" where
  "SplitN2 l =
     (if CHR 0x20 \<in> set l
      then [takeWhile (\<lambda>c. c \<noteq> CHR 0x20) l, tl (dropWhile (\<lambda>c. c \<noteq> CHR 0x20) l)]
      else [l])"

subsection \<open>\<open>addCustomPatterns\<close>\<close>

text \<open>
  The body of the scanner loop: \<open>names[1]\<close> on a slice of length one is an index out of
  range, which panics. The state of the loop is the map \<open>filePatterns\<close>; \<open>None\<close> is the
  panic.
\<close>

definition scan_body :: "(string \<rightharpoonup> string) \<Rightarrow> string \<Rightarrow> (string \<rightharpoonup> string) option" where
  "scan_body filePatterns text =
     (let l = TrimSpace text in
      if length l > 0 \<and> l ! 0 \<noteq> CHR ''#''
      then (let names = SplitN2 l in
            if length names \<le> 1 then None
            else Some (filePatterns(names ! 0 \<mapsto> names ! 1)))
      else Some filePatterns)"

fun scan_loop :: "(string \<rightharpoonup> string) \<Rightarrow> string list \<Rightarrow> (string \<rightharpoonup> string) option" where
  "scan_loop filePatterns [] = Some filePatterns"
| "scan_loop filePatterns (text # rest) =
     (case scan_body filePatterns text of
        None \<Rightarrow> None
      | Some filePatterns' \<Rightarrow> scan_loop filePatterns' rest)"

definition addCustomPatterns ::
  "('g, 'gp, 't) lib \<Rightarrow> 'g Parser \<Rightarrow> outcome \<times> 'g Parser" where
  "addCustomPatterns lib p =
     (case scan_loop Map.empty (Scanner_lines (CustomPatterns p)) of
        None \<Rightarrow> (Panic ''runtime error: index out of range'', p)
      | Some filePatterns \<Rightarrow>
          (case grok_AddPatternsFromMap lib (g_grok p) filePatterns of
             (g', err) \<Rightarrow> (Return err, p\<lparr>g_grok := g'\<rparr>)))"

subsection \<open>\<open>Compile\<close>\<close>

text \<open>
  The four filter blocks of \<open>Compile\<close>, in the order of the source: tag, string, int,
  float. A matcher is assigned only when its list is not empty, and it is assigned
  before the error is looked at.
\<close>

definition compile_filters ::
  "('g, 'gp, 't) lib \<Rightarrow> 'g Parser \<Rightarrow> outcome \<times> 'g Parser" where
  "compile_filters lib p =
     (let (m1, e1) = (if length (TagKeys p) > 0 then internal_CompileFilter lib (TagKeys p)
                      else (tagKeys p, None));
          p1 = p\<lparr>tagKeys := m1\<rparr>
      in if e1 \<noteq> None then (Return e1, p1) else
     (let (m2, e2) = (if length (FieldKeysStr p1) > 0
                      then internal_CompileFilter lib (FieldKeysStr p1)
                      else (fieldKeysStr p1, None));
          p2 = p1\<lparr>fieldKeysStr := m2\<rparr>
      in if e2 \<noteq> None then (Return e2, p2) else
     (let (m3, e3) = (if length (FieldKeysInt p2) > 0
                      then internal_CompileFilter lib (FieldKeysInt p2)
                      else (fieldKeysInt p2, None));
          p3 = p2\<lparr>fieldKeysInt := m3\<rparr>
      in if e3 \<noteq> None then (Return e3, p3) else
     (let (m4, e4) = (if length (FieldKeysFloat p3) > 0
                      then internal_CompileFilter lib (FieldKeysFloat p3)
                      else (fieldKeysFloat p3, None));
          p4 = p3\<lparr>fieldKeysFloat := m4\<rparr>
      in if e4 \<noteq> None then (Return e4, p4) else (Return None, p4)))))"

definition Compile :: "('g, 'gp, 't) lib \<Rightarrow> 'g Parser \<Rightarrow> outcome \<times> 'g Parser" where
  "Compile lib p =
     (let (g0, err0) = grok_NewWithConfig lib;
          p1 = p\<lparr>g_grok := g0\<rparr>
      in if err0 \<noteq> None then (Return err0, p1) else
     (let (g1, err1) = (if CustomPatternFile p1 \<noteq> []
                        then grok_AddPatternsFromPath lib (g_grok p1) (CustomPatternFile p1)
                        else (g_grok p1, None));
          p2 = p1\<lparr>g_grok := g1\<rparr>
      in if err1 \<noteq> None then (Return err1, p2) else
     (let (out, p3) = (if CustomPatterns p2 \<noteq> [] then addCustomPatterns lib p2
                       else (Return None, p2))
      in if out \<noteq> Return None then (out, p3) else compile_filters lib p3)))"

subsection \<open>\<open>ParseLine\<close>\<close>

text \<open>
  One round of the loop over the captures, on the pair of maps \<open>tags\<close> and \<open>fields\<close>
  (written \<open>flds\<close>).
  Every branch of the source ends the round: by \<open>continue\<close>, or by reaching the end of
  the body.
\<close>

definition range_body ::
  "'g Parser \<Rightarrow> string \<times> string \<Rightarrow>
   (string \<rightharpoonup> string) \<times> (string \<rightharpoonup> field_value) \<Rightarrow>
   (string \<rightharpoonup> string) \<times> (string \<rightharpoonup> field_value)" where
  "range_body p kv tf =
     (case (kv, tf) of ((k, v), (tags, flds)) \<Rightarrow>
        if k = [] \<or> v = [] then (tags, flds)
        else if (case tagKeys p of None \<Rightarrow> False | Some m \<Rightarrow> m k) then (tags(k \<mapsto> v), flds)
        else (case fieldKeysInt p of
                Some m \<Rightarrow> (if m k then (tags, flds(k \<mapsto> StringValue v)) else (tags, flds))
              | None \<Rightarrow>
           (case fieldKeysFloat p of
                Some m \<Rightarrow> (if m k then (tags, flds(k \<mapsto> StringValue v)) else (tags, flds))
              | None \<Rightarrow>
           (case fieldKeysStr p of
                Some m \<Rightarrow> (if m k then (tags, flds(k \<mapsto> StringValue v)) else (tags, flds))
              | None \<Rightarrow> (tags, flds(k \<mapsto> StringValue v))))))"

fun range_values ::
  "'g Parser \<Rightarrow> (string \<times> string) list \<Rightarrow>
   (string \<rightharpoonup> string) \<times> (string \<rightharpoonup> field_value) \<Rightarrow>
   (string \<rightharpoonup> string) \<times> (string \<rightharpoonup> field_value)" where
  "range_values p [] tf = tf"
| "range_values p (kv # rest) tf = range_values p rest (range_body p kv tf)"

text \<open>\<open>now\<close> is the value of \<open>time.Now()\<close> at the call.\<close>

definition ParseLine ::
  "('g, 'gp, 't) lib \<Rightarrow> nat \<Rightarrow> 'g Parser \<Rightarrow> string \<Rightarrow> error + Metric" where
  "ParseLine lib now p line =
     (case grok_Parse lib (g_grok p) (Pattern p) line of
        Inl err \<Rightarrow> Inl err
      | Inr values \<Rightarrow>
          (case range_values p values (Map.empty, Map.empty) of
             (tags, flds) \<Rightarrow> NewMetric ''grok'' tags flds now))"

section \<open>logparser.go\<close>

text \<open>
  \<open>GrokParser\<close> is a pointer to a \<open>grok.Parser\<close> and \<open>parsers\<close> holds the same pointer
  again, so the parsers live in a store from addresses to parser values and the plugin
  holds addresses; a nil pointer is \<open>None\<close>. \<open>wg\<close> is the counter of the wait group.
\<close>

type_synonym ptr = nat

record ('t, 'a) LogParserPlugin =
  Files :: "string list"
  FromBeginning :: bool
  tailers :: "'t list"
  wg :: nat
  acc :: 'a
  parsers :: "ptr list"
  GrokParser :: "ptr option"

text \<open>
  What a call does beyond changing the plugin and the store, in the order in which it
  happens: a line given to \<open>log.Printf\<close>, a call of \<open>tail.TailFile\<close>, the start of a
  goroutine running \<open>receiver\<close>, and the calls made by \<open>Stop\<close>.
\<close>

datatype 't effect =
    Log string
  | TailFile_call string tail_Config
  | Go_receiver 't
  | Tail_Stop 't
  | Tail_Cleanup 't
  | WaitGroup_Wait

text \<open>
  The reflection loop of \<open>Start\<close> visits the fields of the plugin. The only field whose
  type has the methods \<open>ParseLine\<close> and \<open>Compile\<close> is \<open>GrokParser\<close>, and a nil pointer is
  skipped.
\<close>

definition find_parsers :: "('t, 'a) LogParserPlugin \<Rightarrow> ptr list" where
  "find_parsers l = (case GrokParser l of None \<Rightarrow> [] | Some a \<Rightarrow> [] @ [a])"

text \<open>The loop that compiles every parser; it returns at the first error.\<close>

fun compile_loop ::
  "('g, 'gp, 't) lib \<Rightarrow> ptr list \<Rightarrow> (ptr \<rightharpoonup> 'g Parser) \<Rightarrow> outcome \<times> (ptr \<rightharpoonup> 'g Parser)" where
  "compile_loop lib [] h = (Return None, h)"
| "compile_loop lib (a # rest) h =
     (case h a of
        None \<Rightarrow> (Panic ''invalid memory address or nil pointer dereference'', h)
      | Some p \<Rightarrow>
          (case Compile lib p of
             (out, p') \<Rightarrow>
               if out \<noteq> Return None then (out, h(a \<mapsto> p'))
               else compile_loop lib rest (h(a \<mapsto> p'))))"

text \<open>
  The inner loop over the files matched by one glob. Its state is the string \<open>errS\<close>,
  the plugin and the effects so far.
\<close>

fun tail_files ::
  "('g, 'gp, 't) lib \<Rightarrow> SeekInfo \<Rightarrow> string list \<Rightarrow>
   string \<times> ('t, 'a) LogParserPlugin \<times> 't effect list \<Rightarrow>
   string \<times> ('t, 'a) LogParserPlugin \<times> 't effect list" where
  "tail_files lib seek [] st = st"
| "tail_files lib seek (file # rest) (errS, l, tr) =
     (let cfg = \<lparr>ReOpen = True, Follow = True, Location = seek\<rparr> in
      case tail_TailFile lib file cfg of
        Inl err \<Rightarrow>
          tail_files lib seek rest (errS @ Error err @ '' '', l, tr @ [TailFile_call file cfg])
      | Inr tailer \<Rightarrow>
          tail_files lib seek rest
            (errS,
             l\<lparr>wg := wg l + 1, tailers := tailers l @ [tailer]\<rparr>,
             tr @ [TailFile_call file cfg, Go_receiver tailer]))"

text \<open>
  The outer loop over \<open>Files\<close>. An error of \<open>globpath.Compile\<close> is logged, and \<open>Match\<close> is
  called on the value that came with it.
\<close>

fun tail_globs ::
  "('g, 'gp, 't) lib \<Rightarrow> SeekInfo \<Rightarrow> string list \<Rightarrow>
   string \<times> ('t, 'a) LogParserPlugin \<times> 't effect list \<Rightarrow>
   string \<times> ('t, 'a) LogParserPlugin \<times> 't effect list" where
  "tail_globs lib seek [] st = st"
| "tail_globs lib seek (filepath # rest) (errS, l, tr) =
     (case globpath_Compile lib filepath of
        (g, err) \<Rightarrow>
          (let tr' = (case err of
                        None \<Rightarrow> tr
                      | Some e \<Rightarrow>
                          tr @ [Log (''ERROR Glob '' @ filepath @ '' failed to compile, '' @ Error e)])
           in tail_globs lib seek rest (tail_files lib seek (globpath_Match lib g) (errS, l, tr'))))"

text \<open>
  \<open>Start\<close> returns its outcome, the plugin, the store and the effects. The lock is taken
  at entry and released at exit and is not part of the state.
\<close>

definition Start ::
  "('g, 'gp, 't) lib \<Rightarrow> 'a \<Rightarrow> ('t, 'a) LogParserPlugin \<Rightarrow> (ptr \<rightharpoonup> 'g Parser) \<Rightarrow>
   outcome \<times> ('t, 'a) LogParserPlugin \<times> (ptr \<rightharpoonup> 'g Parser) \<times> 't effect list" where
  "Start lib a l h =
     (let l1 = l\<lparr>acc := a, parsers := find_parsers l\<rparr> in
      if length (parsers l1) = 0
      then (Return (Some (fmt_Errorf lib ''ERROR: logparser input plugin: no parsers defined.'')),
            l1, h, [])
      else
        (case compile_loop lib (parsers l1) h of
           (out, h1) \<Rightarrow>
             if out \<noteq> Return None then (out, l1, h1, [])
             else
               (let seek = (if \<not> FromBeginning l1 then \<lparr>Offset = 0, Whence = 2\<rparr>
                            else \<lparr>Offset = 0, Whence = 0\<rparr>)
                in case tail_globs lib seek (Files l1) ([], l1, []) of
                     (errS, l2, tr) \<Rightarrow>
                       (if errS \<noteq> [] then Return (Some (fmt_Errorf lib errS)) else Return None,
                        l2, h1, tr))))"

text \<open>
  \<open>Stop\<close> stops and cleans up every tailer in turn and then waits for the receivers.
\<close>

definition Stop ::
  "('g, 'gp, 't) lib \<Rightarrow> ('t, 'a) LogParserPlugin \<Rightarrow> 't effect list" where
  "Stop lib l =
     concat (map (\<lambda>t. [Tail_Stop t]
                      @ (case tail_Stop lib t of
                           None \<Rightarrow> []
                         | Some err \<Rightarrow> [Log (''ERROR stopping tail on file '' @ tail_Filename lib t)])
                      @ [Tail_Cleanup t])
                 (tailers l))
     @ [WaitGroup_Wait]"

section \<open>Auxiliary definitions for the statements\<close>

subsection \<open>When a round of the capture loop writes\<close>

text \<open>
  \<open>tag_match\<close> is the test of the tag block of the loop body. \<open>field_match\<close> is the test the
  three field blocks make together: the first matcher that is set, in the order int,
  float, string, is the only one asked, and a key is a field without any test when none
  of the three is set.
\<close>

definition tag_match :: "'g Parser \<Rightarrow> string \<Rightarrow> bool" where
  "tag_match p k = (case tagKeys p of None \<Rightarrow> False | Some m \<Rightarrow> m k)"

definition field_match :: "'g Parser \<Rightarrow> string \<Rightarrow> bool" where
  "field_match p k =
     (case fieldKeysInt p of Some m \<Rightarrow> m k | None \<Rightarrow>
     (case fieldKeysFloat p of Some m \<Rightarrow> m k | None \<Rightarrow>
     (case fieldKeysStr p of Some m \<Rightarrow> m k | None \<Rightarrow> True)))"

subsection \<open>What \<open>Start\<close> does, read off its result\<close>

text \<open>
  The configuration \<open>Start\<close> passes to \<open>tail.TailFile\<close>, the files all globs resolve to in
  the order in which they are visited, the text appended to \<open>errS\<close> for a list of files, the tailers
  opened for it, and the projections of a list of effects.
\<close>

definition tail_config :: "bool \<Rightarrow> tail_Config" where
  "tail_config fromBeginning =
     \<lparr>ReOpen = True, Follow = True,
      Location = (if \<not> fromBeginning then \<lparr>Offset = 0, Whence = 2\<rparr> else \<lparr>Offset = 0, Whence = 0\<rparr>)\<rparr>"

definition resolved_files :: "('g, 'gp, 't) lib \<Rightarrow> string list \<Rightarrow> string list" where
  "resolved_files lib filepaths =
     concat (map (\<lambda>filepath. globpath_Match lib (fst (globpath_Compile lib filepath))) filepaths)"

definition open_errors :: "('g, 'gp, 't) lib \<Rightarrow> tail_Config \<Rightarrow> string list \<Rightarrow> string" where
  "open_errors lib cfg files =
     concat (map (\<lambda>file. case tail_TailFile lib file cfg of
                             Inl err \<Rightarrow> Error err @ '' '' | Inr tailer \<Rightarrow> []) files)"

definition opened_tailers :: "('g, 'gp, 't) lib \<Rightarrow> tail_Config \<Rightarrow> string list \<Rightarrow> 't list" where
  "opened_tailers lib cfg files =
     concat (map (\<lambda>file. case tail_TailFile lib file cfg of
                             Inl err \<Rightarrow> [] | Inr tailer \<Rightarrow> [tailer]) files)"

definition glob_errors :: "('g, 'gp, 't) lib \<Rightarrow> string list \<Rightarrow> string list" where
  "glob_errors lib filepaths =
     concat (map (\<lambda>filepath. case snd (globpath_Compile lib filepath) of
                                 None \<Rightarrow> []
                               | Some e \<Rightarrow> [''ERROR Glob '' @ filepath @ '' failed to compile, '' @ Error e])
                 filepaths)"

definition tail_calls :: "'t effect list \<Rightarrow> string list" where
  "tail_calls tr = concat (map (\<lambda>e. case e of TailFile_call file cfg \<Rightarrow> [file] | _ \<Rightarrow> []) tr)"

definition receivers :: "'t effect list \<Rightarrow> 't list" where
  "receivers tr = concat (map (\<lambda>e. case e of Go_receiver t \<Rightarrow> [t] | _ \<Rightarrow> []) tr)"

definition stopped :: "'t effect list \<Rightarrow> 't list" where
  "stopped tr =
     concat (map (\<lambda>e. case e of Tail_Stop t \<Rightarrow> [t] | Tail_Cleanup t \<Rightarrow> [t] | _ \<Rightarrow> []) tr)"

definition logged :: "'t effect list \<Rightarrow> string list" where
  "logged tr = concat (map (\<lambda>e. case e of Log msg \<Rightarrow> [msg] | _ \<Rightarrow> []) tr)"

subsection \<open>The grok engine\<close>

text \<open>
  Modelled from the spec: the grok engine behind \<open>p.g.Parse\<close> (package
  \<open>github.com/vjeantet/grok\<close>) is not among the sources. Section 4.3 says "Executes
  Grammar against rawLine; no match or a grammar-internal failure => ParseError, no
  partial measurement produced", and section 3 calls a Capture "a (name,
  raw-string-value) pair produced by matching a grammar against a line". A compiled
  grammar is a function from a pattern and a line to the captures, or to nothing when the
  line does not match.
\<close>

definition ParseError :: error where
  "ParseError = Err ''ParseError''"

type_synonym Grammar = "string \<Rightarrow> string \<Rightarrow> (string \<times> string) list option"

definition Grammar_Parse :: "Grammar \<Rightarrow> string \<Rightarrow> string \<Rightarrow> error + (string \<times> string) list" where
  "Grammar_Parse gr pattern line =
     (case gr pattern line of None \<Rightarrow> Inl ParseError | Some captures \<Rightarrow> Inr captures)"

subsection \<open>A small instance of the libraries\<close>

text \<open>
  The examples run the model on this instance. Its grammar knows one pattern, an HTTP
  status followed by a byte count or a dash, and two lines; the dash leaves the capture
  \<open>bytes\<close> empty. Its key filters are lists of literal names, and the filter \<open>[\<close> does not
  compile. The glob \<open>/var/log/*.log\<close> resolves to three files, of which
  \<open>/var/log/secret.log\<close> cannot be opened; the glob \<open>[\<close> does not compile; every other
  path resolves to itself. \<open>example_lib_rev\<close> differs in the order in which the captures
  are visited.
\<close>

definition example_pattern :: string where
  "example_pattern = ''%{NUMBER:response} (?:%{NUMBER:bytes}|-)''"

definition example_grammar :: Grammar where
  "example_grammar pattern line =
     (if pattern \<noteq> example_pattern then None
      else if line = ''200 612'' then Some [(''response'', ''200''), (''bytes'', ''612'')]
      else if line = ''304 -'' then Some [(''response'', ''304''), (''bytes'', [])]
      else None)"

definition example_CompileFilter :: "string list \<Rightarrow> Glob \<times> error option" where
  "example_CompileFilter filters =
     (if filters = [] then (None, None)
      else if ''['' \<in> set filters then (None, Some (Err ''unexpected end of input''))
      else (Some (\<lambda>k. k \<in> set filters), None))"

definition example_TailFile :: "string \<Rightarrow> tail_Config \<Rightarrow> error + nat" where
  "example_TailFile file cfg =
     (if file = ''/var/log/apache.log'' then Inr 1
      else if file = ''/var/log/nginx.log'' then Inr 2
      else Inl (Err (''open '' @ file @ '': permission denied'')))"

definition example_globpath_Compile :: "string \<Rightarrow> string list \<times> error option" where
  "example_globpath_Compile path =
     (if path = ''['' then ([], Some (Err ''unexpected end of input''))
      else if path = ''/var/log/*.log''
      then ([''/var/log/apache.log'', ''/var/log/secret.log'', ''/var/log/nginx.log''], None)
      else ([path], None))"

definition example_lib :: "(Grammar, string list, nat) lib" where
  "example_lib =
     \<lparr>grok_NewWithConfig = (example_grammar, None),
      grok_AddPatternsFromPath = (\<lambda>g path. (g, None)),
      grok_AddPatternsFromMap = (\<lambda>g patterns. (g, None)),
      grok_Parse = Grammar_Parse,
      internal_CompileFilter = example_CompileFilter,
      globpath_Compile = example_globpath_Compile,
      globpath_Match = (\<lambda>g. g),
      tail_TailFile = example_TailFile,
      tail_Stop = (\<lambda>t. None),
      tail_Filename = (\<lambda>t. []),
      fmt_Errorf = Err\<rparr>"

definition example_lib_rev :: "(Grammar, string list, nat) lib" where
  "example_lib_rev =
     example_lib\<lparr>grok_Parse := (\<lambda>g pattern line. map_sum id rev (Grammar_Parse g pattern line))\<rparr>"

definition example_Parser :: "Grammar Parser" where
  "example_Parser =
     \<lparr>Pattern = example_pattern, CustomPatterns = [], CustomPatternFile = [],
      TagKeys = [], tagKeys = None,
      FieldKeysStr = [], fieldKeysStr = None,
      FieldKeysInt = [], fieldKeysInt = None,
      FieldKeysFloat = [], fieldKeysFloat = None,
      g_grok = (\<lambda>pattern line. None)\<rparr>"

definition example_plugin :: "(nat, unit) LogParserPlugin" where
  "example_plugin =
     \<lparr>Files = [''/var/log/*.log''], FromBeginning = False, tailers = [], wg = 0, acc = (),
      parsers = [], GrokParser = Some 0\<rparr>"

definition example_store :: "ptr \<rightharpoonup> Grammar Parser" where
  "example_store = [0 \<mapsto> example_Parser]"

section \<open>The capture loop of \<open>ParseLine\<close>\<close>

lemma range_body_eq:
  "range_body p (k, v) (T, F) =
     (if k = [] \<or> v = [] then (T, F)
      else if tag_match p k then (T(k \<mapsto> v), F)
      else if field_match p k then (T, F(k \<mapsto> StringValue v))
      else (T, F))"
  by (simp add: range_body_def tag_match_def field_match_def split: option.splits)

lemma range_values_tags:
  "distinct (map fst kvs) \<Longrightarrow>
   fst (range_values p kvs (T, F)) k =
     (case map_of kvs k of
        None \<Rightarrow> T k
      | Some v \<Rightarrow> if k \<noteq> [] \<and> v \<noteq> [] \<and> tag_match p k then Some v else T k)"
proof (induction kvs arbitrary: T F)
  case Nil
  show ?case by simp
next
  case (Cons kv kvs)
  obtain k' v' where kv: "kv = (k', v')" by (cases kv)
  from Cons.prems have d: "distinct (map fst kvs)" and nin: "k' \<notin> fst ` set kvs"
    by (simp_all add: kv)
  from nin have none: "map_of kvs k' = None" by (simp add: map_of_eq_None_iff)
  obtain T' F' where b: "range_body p (k', v') (T, F) = (T', F')" by (cases "range_body p (k', v') (T, F)")
  have T': "T' = (if k' \<noteq> [] \<and> v' \<noteq> [] \<and> tag_match p k' then T(k' \<mapsto> v') else T)"
    using b by (auto simp: range_body_eq split: if_splits)
  show ?case
    using Cons.IH [OF d, of T' F'] none
    by (simp add: kv b T' split: option.splits)
qed

lemma range_values_fields:
  "distinct (map fst kvs) \<Longrightarrow>
   snd (range_values p kvs (T, F)) k =
     (case map_of kvs k of
        None \<Rightarrow> F k
      | Some v \<Rightarrow> if k \<noteq> [] \<and> v \<noteq> [] \<and> \<not> tag_match p k \<and> field_match p k
                  then Some (StringValue v) else F k)"
proof (induction kvs arbitrary: T F)
  case Nil
  show ?case by simp
next
  case (Cons kv kvs)
  obtain k' v' where kv: "kv = (k', v')" by (cases kv)
  from Cons.prems have d: "distinct (map fst kvs)" and nin: "k' \<notin> fst ` set kvs"
    by (simp_all add: kv)
  from nin have none: "map_of kvs k' = None" by (simp add: map_of_eq_None_iff)
  obtain T' F' where b: "range_body p (k', v') (T, F) = (T', F')" by (cases "range_body p (k', v') (T, F)")
  have F': "F' = (if k' \<noteq> [] \<and> v' \<noteq> [] \<and> \<not> tag_match p k' \<and> field_match p k'
                  then F(k' \<mapsto> StringValue v') else F)"
    using b by (auto simp: range_body_eq split: if_splits)
  show ?case
    using Cons.IH [OF d, of T' F'] none
    by (simp add: kv b F' split: option.splits)
qed


lemma ParseLine_Inr:
  assumes "grok_Parse lib (g_grok p) (Pattern p) line = Inr kvs"
  shows "ParseLine lib now p line =
           Inr \<lparr>Name = ''grok'',
                Tags = fst (range_values p kvs (Map.empty, Map.empty)),
                Fields = snd (range_values p kvs (Map.empty, Map.empty)),
                Time = now\<rparr>"
  using assms by (simp add: ParseLine_def NewMetric_def split: prod.splits)

section \<open>\<open>Compile\<close> on a parser without key filters\<close>

lemma addCustomPatterns_only_g:
  "addCustomPatterns lib p = (out, p') \<Longrightarrow> \<exists>g'. p' = p\<lparr>g_grok := g'\<rparr>"
  by (auto simp: addCustomPatterns_def split: option.splits prod.splits intro: exI [of _ "g_grok p"])

lemma compile_filters_no_lists:
  assumes "TagKeys p = []" "FieldKeysStr p = []" "FieldKeysInt p = []" "FieldKeysFloat p = []"
  shows "compile_filters lib p = (Return None, p)"
  using assms by (simp add: compile_filters_def)

lemma Compile_no_lists:
  assumes "TagKeys p = []" "FieldKeysStr p = []" "FieldKeysInt p = []" "FieldKeysFloat p = []"
    and "Compile lib p = (out, p')"
  shows "\<exists>g'. p' = p\<lparr>g_grok := g'\<rparr>"
proof -
  obtain g0 err0 where n: "grok_NewWithConfig lib = (g0, err0)" by (cases "grok_NewWithConfig lib")
  define p1 where "p1 = p\<lparr>g_grok := g0\<rparr>"
  show ?thesis
  proof (cases "err0 = None")
    case False
    then have "p' = p1" using assms(5) by (simp add: Compile_def n p1_def)
    then show ?thesis by (auto simp: p1_def)
  next
    case ok0: True
    obtain g1 err1 where a: "(if CustomPatternFile p1 \<noteq> []
                        then grok_AddPatternsFromPath lib (g_grok p1) (CustomPatternFile p1)
                        else (g_grok p1, None)) = (g1, err1)"
      by (cases "(if CustomPatternFile p1 \<noteq> []
                        then grok_AddPatternsFromPath lib (g_grok p1) (CustomPatternFile p1)
                        else (g_grok p1, None))")
    define p2 where "p2 = p1\<lparr>g_grok := g1\<rparr>"
    show ?thesis
    proof (cases "err1 = None")
      case False
      then have "p' = p2" using assms(5) ok0 a by (simp add: Compile_def n p1_def [symmetric] p2_def)
      then show ?thesis by (auto simp: p1_def p2_def)
    next
      case ok1: True
      obtain out3 p3 where c: "(if CustomPatterns p2 \<noteq> [] then addCustomPatterns lib p2
                       else (Return None, p2)) = (out3, p3)"
        by (cases "(if CustomPatterns p2 \<noteq> [] then addCustomPatterns lib p2
                       else (Return None, p2))")
      then obtain g3 where p3: "p3 = p2\<lparr>g_grok := g3\<rparr>"
        using addCustomPatterns_only_g [of lib p2 out3 p3]
        by (auto split: if_splits intro: that [of "g_grok p2"])
      have lists: "TagKeys p3 = []" "FieldKeysStr p3 = []" "FieldKeysInt p3 = []" "FieldKeysFloat p3 = []"
        using assms(1-4) by (simp_all add: p3 p2_def p1_def)
      have "p' = p3"
        using assms(5) ok0 ok1 a c compile_filters_no_lists [OF lists, of lib]
        by (simp add: Compile_def n p1_def [symmetric] p2_def [symmetric] split: if_splits)
      then show ?thesis by (auto simp: p3 p1_def p2_def)
    qed
  qed
qed

section \<open>The file loop of \<open>Start\<close>\<close>

lemma proj_append [simp]:
  "tail_calls (xs @ ys) = tail_calls xs @ tail_calls ys"
  "receivers (xs @ ys) = receivers xs @ receivers ys"
  "stopped (xs @ ys) = stopped xs @ stopped ys"
  "logged (xs @ ys) = logged xs @ logged ys"
  by (simp_all add: tail_calls_def receivers_def stopped_def logged_def)

lemma proj_single [simp]:
  "tail_calls [] = []" "receivers [] = []" "stopped [] = []" "logged [] = []"
  "tail_calls (TailFile_call f c # xs) = f # tail_calls xs"
  "tail_calls (Go_receiver t # xs) = tail_calls xs"
  "tail_calls (Log m # xs) = tail_calls xs"
  "receivers (TailFile_call f c # xs) = receivers xs"
  "receivers (Go_receiver t # xs) = t # receivers xs"
  "receivers (Log m # xs) = receivers xs"
  "stopped (TailFile_call f c # xs) = stopped xs"
  "stopped (Go_receiver t # xs) = stopped xs"
  "stopped (Log m # xs) = stopped xs"
  "logged (TailFile_call f c # xs) = logged xs"
  "logged (Go_receiver t # xs) = logged xs"
  "logged (Log m # xs) = m # logged xs"
  by (simp_all add: tail_calls_def receivers_def stopped_def logged_def)

lemma tail_files_eq:
  "\<exists>tr'. tail_files lib seek files (errS, l, tr) =
           (errS @ open_errors lib \<lparr>ReOpen = True, Follow = True, Location = seek\<rparr> files,
            l\<lparr>wg := wg l + length (opened_tailers lib \<lparr>ReOpen = True, Follow = True, Location = seek\<rparr> files),
              tailers := tailers l @ opened_tailers lib \<lparr>ReOpen = True, Follow = True, Location = seek\<rparr> files\<rparr>,
            tr @ tr')
         \<and> tail_calls tr' = files
         \<and> receivers tr' = opened_tailers lib \<lparr>ReOpen = True, Follow = True, Location = seek\<rparr> files
         \<and> stopped tr' = [] \<and> logged tr' = []"
proof (induction files arbitrary: errS l tr)
  case Nil
  show ?case by (simp add: open_errors_def opened_tailers_def Let_def)
next
  case (Cons f files)
  let ?cfg = "\<lparr>ReOpen = True, Follow = True, Location = seek\<rparr>"
  show ?case
  proof (cases "tail_TailFile lib f ?cfg")
    case (Inl err)
    from Cons.IH [of "errS @ Error err @ '' ''" l "tr @ [TailFile_call f ?cfg]"]
    obtain tr' where
      "tail_files lib seek files (errS @ Error err @ '' '', l, tr @ [TailFile_call f ?cfg]) =
         ((errS @ Error err @ '' '') @ open_errors lib ?cfg files,
          l\<lparr>wg := wg l + length (opened_tailers lib ?cfg files),
            tailers := tailers l @ opened_tailers lib ?cfg files\<rparr>,
          (tr @ [TailFile_call f ?cfg]) @ tr')"
      and "tail_calls tr' = files" and "receivers tr' = opened_tailers lib ?cfg files"
      and "stopped tr' = []" and "logged tr' = []"
      by blast
    then show ?thesis
      using Inl
      by (intro exI [of _ "TailFile_call f ?cfg # tr'"])
         (simp add: open_errors_def opened_tailers_def Let_def)
  next
    case (Inr tailer)
    from Cons.IH [of errS "l\<lparr>wg := wg l + 1, tailers := tailers l @ [tailer]\<rparr>"
        "tr @ [TailFile_call f ?cfg, Go_receiver tailer]"]
    obtain tr' where
      "tail_files lib seek files
         (errS, l\<lparr>wg := wg l + 1, tailers := tailers l @ [tailer]\<rparr>,
          tr @ [TailFile_call f ?cfg, Go_receiver tailer]) =
         (errS @ open_errors lib ?cfg files,
          l\<lparr>wg := wg l + 1, tailers := tailers l @ [tailer]\<rparr>
           \<lparr>wg := wg (l\<lparr>wg := wg l + 1, tailers := tailers l @ [tailer]\<rparr>)
                    + length (opened_tailers lib ?cfg files),
            tailers := tailers (l\<lparr>wg := wg l + 1, tailers := tailers l @ [tailer]\<rparr>)
                    @ opened_tailers lib ?cfg files\<rparr>,
          (tr @ [TailFile_call f ?cfg, Go_receiver tailer]) @ tr')"
      and "tail_calls tr' = files" and "receivers tr' = opened_tailers lib ?cfg files"
      and "stopped tr' = []" and "logged tr' = []"
      by blast
    then show ?thesis
      using Inr
      by (intro exI [of _ "TailFile_call f ?cfg # Go_receiver tailer # tr'"])
         (simp add: open_errors_def opened_tailers_def Let_def)
  qed
qed

lemma resolved_files_Cons:
  "resolved_files lib (fp # fps) =
     globpath_Match lib (fst (globpath_Compile lib fp)) @ resolved_files lib fps"
  by (simp add: resolved_files_def)

lemma open_errors_append:
  "open_errors lib cfg (xs @ ys) = open_errors lib cfg xs @ open_errors lib cfg ys"
  by (simp add: open_errors_def)

lemma opened_tailers_append:
  "opened_tailers lib cfg (xs @ ys) = opened_tailers lib cfg xs @ opened_tailers lib cfg ys"
  by (simp add: opened_tailers_def)

lemma tail_globs_eq:
  "\<exists>tr'. tail_globs lib seek fps (errS, l, tr :: 't effect list) =
           (errS @ open_errors lib \<lparr>ReOpen = True, Follow = True, Location = seek\<rparr> (resolved_files lib fps),
            l\<lparr>wg := wg l + length (opened_tailers lib \<lparr>ReOpen = True, Follow = True, Location = seek\<rparr> (resolved_files lib fps)),
              tailers := tailers l @ opened_tailers lib \<lparr>ReOpen = True, Follow = True, Location = seek\<rparr> (resolved_files lib fps)\<rparr>,
            tr @ tr')
         \<and> tail_calls tr' = resolved_files lib fps
         \<and> receivers tr' = opened_tailers lib \<lparr>ReOpen = True, Follow = True, Location = seek\<rparr> (resolved_files lib fps)
         \<and> stopped tr' = [] \<and> logged tr' = glob_errors lib fps"
proof (induction fps arbitrary: errS l tr)
  case Nil
  show ?case by (simp add: open_errors_def opened_tailers_def resolved_files_def glob_errors_def)
next
  case (Cons fp fps)
  let ?cfg = "\<lparr>ReOpen = True, Follow = True, Location = seek\<rparr>"
  obtain g err where c: "globpath_Compile lib fp = (g, err)" by (cases "globpath_Compile lib fp")
  define lg where "lg = (case err of None \<Rightarrow> [] | Some e \<Rightarrow>
      [Log (''ERROR Glob '' @ fp @ '' failed to compile, '' @ Error e) :: 't effect])"
  have tr0: "(case err of None \<Rightarrow> tr | Some e \<Rightarrow>
      tr @ [Log (''ERROR Glob '' @ fp @ '' failed to compile, '' @ Error e)]) = tr @ lg"
    by (simp add: lg_def split: option.splits)
  have lg_proj: "tail_calls lg = []" "receivers lg = []" "stopped lg = []"
    "logged lg = glob_errors lib [fp]"
    by (simp_all add: lg_def glob_errors_def c split: option.splits)
  let ?ms = "globpath_Match lib g"
  obtain tr1 where
    1: "tail_files lib seek ?ms (errS, l, tr @ lg) =
         (errS @ open_errors lib ?cfg ?ms,
          l\<lparr>wg := wg l + length (opened_tailers lib ?cfg ?ms),
            tailers := tailers l @ opened_tailers lib ?cfg ?ms\<rparr>,
          (tr @ lg) @ tr1)"
    and p1: "tail_calls tr1 = ?ms" "receivers tr1 = opened_tailers lib ?cfg ?ms"
      "stopped tr1 = []" "logged tr1 = []"
    using tail_files_eq [of lib seek ?ms errS l "tr @ lg"] by blast
  let ?l1 = "l\<lparr>wg := wg l + length (opened_tailers lib ?cfg ?ms),
            tailers := tailers l @ opened_tailers lib ?cfg ?ms\<rparr>"
  obtain tr2 where
    2: "tail_globs lib seek fps (errS @ open_errors lib ?cfg ?ms, ?l1, (tr @ lg) @ tr1) =
         ((errS @ open_errors lib ?cfg ?ms) @ open_errors lib ?cfg (resolved_files lib fps),
          ?l1\<lparr>wg := wg ?l1 + length (opened_tailers lib ?cfg (resolved_files lib fps)),
              tailers := tailers ?l1 @ opened_tailers lib ?cfg (resolved_files lib fps)\<rparr>,
          ((tr @ lg) @ tr1) @ tr2)"
    and p2: "tail_calls tr2 = resolved_files lib fps"
      "receivers tr2 = opened_tailers lib ?cfg (resolved_files lib fps)"
      "stopped tr2 = []" "logged tr2 = glob_errors lib fps"
    using Cons.IH [of "errS @ open_errors lib ?cfg ?ms" ?l1 "(tr @ lg) @ tr1"] by blast
  have ge: "glob_errors lib (fp # fps) = glob_errors lib [fp] @ glob_errors lib fps"
    by (simp add: glob_errors_def)
  show ?case
    apply (rule exI [of _ "lg @ tr1 @ tr2"])
    apply (simp only: tail_globs.simps c prod.case Let_def tr0 1 2)
    apply (simp add: resolved_files_Cons c open_errors_append opened_tailers_append p1 p2 lg_proj ge)
    done
qed

lemma opened_tailers_length: "length (opened_tailers lib cfg files) \<le> length files"
  by (induction files) (simp_all add: opened_tailers_def split: sum.splits)

lemma open_errors_Nil_iff:
  "(open_errors lib cfg files = []) = (length (opened_tailers lib cfg files) = length files)"
proof (induction files)
  case Nil
  show ?case by (simp add: open_errors_def opened_tailers_def)
next
  case (Cons f files)
  have le: "length (opened_tailers lib cfg files) \<le> length files" by (rule opened_tailers_length)
  show ?case
  proof (cases "tail_TailFile lib f cfg")
    case (Inl err)
    then show ?thesis using le by (simp add: open_errors_def opened_tailers_def)
  next
    case (Inr t)
    then show ?thesis using Cons.IH by (simp add: open_errors_def opened_tailers_def)
  qed
qed

lemma Start_compiled:
  assumes "GrokParser l = Some a" and "h a = Some p" and "Compile lib p = (out, p')"
  shows "out \<noteq> Return None \<Longrightarrow>
           Start lib x l h = (out, l\<lparr>acc := x, parsers := [a]\<rparr>, h(a \<mapsto> p'), [])"
    and "out = Return None \<Longrightarrow>
           \<exists>tr. Start lib x l h =
             (if open_errors lib (tail_config (FromBeginning l)) (resolved_files lib (Files l)) = []
              then Return None
              else Return (Some (fmt_Errorf lib
                     (open_errors lib (tail_config (FromBeginning l)) (resolved_files lib (Files l))))),
              l\<lparr>acc := x, parsers := [a],
                wg := wg l + length (opened_tailers lib (tail_config (FromBeginning l))
                                       (resolved_files lib (Files l))),
                tailers := tailers l @ opened_tailers lib (tail_config (FromBeginning l))
                                         (resolved_files lib (Files l))\<rparr>,
              h(a \<mapsto> p'), tr)
           \<and> tail_calls tr = resolved_files lib (Files l)
           \<and> receivers tr = opened_tailers lib (tail_config (FromBeginning l))
                                (resolved_files lib (Files l))
           \<and> stopped tr = [] \<and> logged tr = glob_errors lib (Files l)"
proof -
  have fp: "find_parsers l = [a]" using assms(1) by (simp add: find_parsers_def)
  have cl: "compile_loop lib [a] h = (out, h(a \<mapsto> p'))"
    using assms(2,3) by simp
  show "out \<noteq> Return None \<Longrightarrow>
           Start lib x l h = (out, l\<lparr>acc := x, parsers := [a]\<rparr>, h(a \<mapsto> p'), [])"
    by (simp add: Start_def fp cl del: compile_loop.simps)
  assume ok: "out = Return None"
  define seek where "seek = (if \<not> FromBeginning l then \<lparr>Offset = 0, Whence = 2\<rparr>
                            else \<lparr>Offset = 0, Whence = 0\<rparr>)"
  have cfg: "tail_config (FromBeginning l) = \<lparr>ReOpen = True, Follow = True, Location = seek\<rparr>"
    by (simp add: tail_config_def seek_def)
  let ?l1 = "l\<lparr>acc := x, parsers := [a]\<rparr>"
  obtain tr where
    g: "tail_globs lib seek (Files l) ([], ?l1, []) =
          ([] @ open_errors lib (tail_config (FromBeginning l)) (resolved_files lib (Files l)),
           ?l1\<lparr>wg := wg ?l1 + length (opened_tailers lib (tail_config (FromBeginning l))
                                       (resolved_files lib (Files l))),
              tailers := tailers ?l1 @ opened_tailers lib (tail_config (FromBeginning l))
                                         (resolved_files lib (Files l))\<rparr>,
           [] @ tr)"
    and pr: "tail_calls tr = resolved_files lib (Files l)"
      "receivers tr = opened_tailers lib (tail_config (FromBeginning l)) (resolved_files lib (Files l))"
      "stopped tr = []" "logged tr = glob_errors lib (Files l)"
    using tail_globs_eq [of lib seek "Files l" "[]" ?l1 "[]"] unfolding cfg by blast
  have "Start lib x l h =
             (if open_errors lib (tail_config (FromBeginning l)) (resolved_files lib (Files l)) = []
              then Return None
              else Return (Some (fmt_Errorf lib
                     (open_errors lib (tail_config (FromBeginning l)) (resolved_files lib (Files l))))),
              l\<lparr>acc := x, parsers := [a],
                wg := wg l + length (opened_tailers lib (tail_config (FromBeginning l))
                                       (resolved_files lib (Files l))),
                tailers := tailers l @ opened_tailers lib (tail_config (FromBeginning l))
                                         (resolved_files lib (Files l))\<rparr>,
              h(a \<mapsto> p'), tr)"
    using ok g
    by (simp add: Start_def fp cl seek_def [symmetric] del: compile_loop.simps)
  with pr show "\<exists>tr. Start lib x l h =
             (if open_errors lib (tail_config (FromBeginning l)) (resolved_files lib (Files l)) = []
              then Return None
              else Return (Some (fmt_Errorf lib
                     (open_errors lib (tail_config (FromBeginning l)) (resolved_files lib (Files l))))),
              l\<lparr>acc := x, parsers := [a],
                wg := wg l + length (opened_tailers lib (tail_config (FromBeginning l))
                                       (resolved_files lib (Files l))),
                tailers := tailers l @ opened_tailers lib (tail_config (FromBeginning l))
                                         (resolved_files lib (Files l))\<rparr>,
              h(a \<mapsto> p'), tr)
           \<and> tail_calls tr = resolved_files lib (Files l)
           \<and> receivers tr = opened_tailers lib (tail_config (FromBeginning l))
                                (resolved_files lib (Files l))
           \<and> stopped tr = [] \<and> logged tr = glob_errors lib (Files l)"
    by blast
qed

text \<open>
  The effects of \<open>Start\<close> up to the point where a glob has failed to compile and its error
  has been logged. They come before the call of \<open>Match\<close> on the value that
  \<open>globpath.Compile\<close> returned with the error, and they are the same for every library.
\<close>

lemma Start_effects_before_Match:
  assumes "GrokParser l = Some a" and "h a = Some p" and "Compile lib p = (Return None, p')"
    and "Files l = fp1 # fp2 # rest"
    and "globpath_Compile lib fp1 = (g1, None)" and "globpath_Match lib g1 = [file]"
    and "tail_TailFile lib file (tail_config (FromBeginning l)) = Inr t"
    and "globpath_Compile lib fp2 = (g2, Some e)"
  shows "take 3 (snd (snd (snd (Start lib x l h)))) =
           [TailFile_call file (tail_config (FromBeginning l)), Go_receiver t,
            Log (''ERROR Glob '' @ fp2 @ '' failed to compile, '' @ Error e)]"
proof -
  define seek where "seek = (if \<not> FromBeginning l then \<lparr>Offset = 0, Whence = 2\<rparr>
                            else \<lparr>Offset = 0, Whence = 0\<rparr>)"
  have cfg: "tail_config (FromBeginning l) = \<lparr>ReOpen = True, Follow = True, Location = seek\<rparr>"
    by (simp add: tail_config_def seek_def)
  let ?cfg = "\<lparr>ReOpen = True, Follow = True, Location = seek\<rparr>"
  let ?l1 = "l\<lparr>acc := x, parsers := [a]\<rparr>"
  let ?l2 = "?l1\<lparr>wg := wg ?l1 + 1, tailers := tailers ?l1 @ [t]\<rparr>"
  let ?tr3 = "[TailFile_call file ?cfg, Go_receiver t,
               Log (''ERROR Glob '' @ fp2 @ '' failed to compile, '' @ Error e)]"
  have fp: "find_parsers l = [a]" using assms(1) by (simp add: find_parsers_def)
  have cl: "compile_loop lib [a] h = (Return None, h(a \<mapsto> p'))"
    using assms(2,3) by simp
  have open1: "tail_TailFile lib file ?cfg = Inr t" using assms(7) by (simp add: cfg)
  have step: "tail_globs lib seek (fp1 # fp2 # rest) ([], ?l1, []) =
                tail_globs lib seek rest
                  (tail_files lib seek (globpath_Match lib g2) ([], ?l2, ?tr3))"
    by (simp add: assms(5,6,8) open1 Let_def)
  obtain tr' where
    f: "tail_files lib seek (globpath_Match lib g2) ([], ?l2, ?tr3) =
          ([] @ open_errors lib ?cfg (globpath_Match lib g2),
           ?l2\<lparr>wg := wg ?l2 + length (opened_tailers lib ?cfg (globpath_Match lib g2)),
               tailers := tailers ?l2 @ opened_tailers lib ?cfg (globpath_Match lib g2)\<rparr>,
           ?tr3 @ tr')"
    using tail_files_eq [of lib seek "globpath_Match lib g2" "[]" ?l2 ?tr3] by blast
  obtain errS l3 tr'' where
    g: "tail_globs lib seek rest
          (tail_files lib seek (globpath_Match lib g2) ([], ?l2, ?tr3)) = (errS, l3, (?tr3 @ tr') @ tr'')"
    unfolding f
    using tail_globs_eq [of lib seek rest "[] @ open_errors lib ?cfg (globpath_Match lib g2)"
        "?l2\<lparr>wg := wg ?l2 + length (opened_tailers lib ?cfg (globpath_Match lib g2)),
               tailers := tailers ?l2 @ opened_tailers lib ?cfg (globpath_Match lib g2)\<rparr>"
        "?tr3 @ tr'"]
    by blast
  have "snd (snd (snd (Start lib x l h))) = (?tr3 @ tr') @ tr''"
    using step g assms(4)
    by (simp add: Start_def fp cl seek_def [symmetric] del: compile_loop.simps tail_globs.simps)
  then show ?thesis by (simp add: cfg)
qed

section \<open>The instance, evaluated\<close>

lemma example_Compile:
  "Compile example_lib example_Parser = (Return None, example_Parser\<lparr>g_grok := example_grammar\<rparr>)"
  by (simp add: Compile_def compile_filters_def example_lib_def example_Parser_def)

lemma example_Compile_tags:
  "Compile example_lib (example_Parser\<lparr>TagKeys := ts, FieldKeysInt := is\<rparr>) =
     (if ''['' \<in> set ts then
        (Return (Some (Err ''unexpected end of input'')),
         example_Parser\<lparr>TagKeys := ts, FieldKeysInt := is, g_grok := example_grammar\<rparr>)
      else if ''['' \<in> set is then
        (Return (Some (Err ''unexpected end of input'')),
         example_Parser\<lparr>TagKeys := ts, FieldKeysInt := is, g_grok := example_grammar,
                         tagKeys := (if ts = [] then None else Some (\<lambda>k. k \<in> set ts))\<rparr>)
      else
        (Return None,
         example_Parser\<lparr>TagKeys := ts, FieldKeysInt := is, g_grok := example_grammar,
                         tagKeys := (if ts = [] then None else Some (\<lambda>k. k \<in> set ts)),
                         fieldKeysInt := (if is = [] then None else Some (\<lambda>k. k \<in> set is))\<rparr>))"
  by (simp add: Compile_def compile_filters_def example_lib_def example_Parser_def
      example_CompileFilter_def)

lemma example_Parse:
  "grok_Parse example_lib example_grammar example_pattern ''200 612''
     = Inr [(''response'', ''200''), (''bytes'', ''612'')]"
  "grok_Parse example_lib example_grammar example_pattern ''304 -''
     = Inr [(''response'', ''304''), (''bytes'', [])]"
  "grok_Parse example_lib_rev example_grammar example_pattern ''200 612''
     = Inr [(''bytes'', ''612''), (''response'', ''200'')]"
  by (simp_all add: example_lib_rev_def example_lib_def Grammar_Parse_def example_grammar_def)

lemma example_Parser_sel:
  "Pattern example_Parser = example_pattern" "TagKeys example_Parser = []"
  "FieldKeysStr example_Parser = []" "FieldKeysInt example_Parser = []"
  "FieldKeysFloat example_Parser = []" "tagKeys example_Parser = None"
  "fieldKeysStr example_Parser = None" "fieldKeysInt example_Parser = None"
  "fieldKeysFloat example_Parser = None"
  by (simp_all add: example_Parser_def)

lemma example_resolved:
  "resolved_files example_lib [''/var/log/*.log'']
     = [''/var/log/apache.log'', ''/var/log/secret.log'', ''/var/log/nginx.log'']"
  by (simp add: resolved_files_def example_lib_def example_globpath_Compile_def)

lemma example_open:
  "open_errors example_lib cfg [''/var/log/apache.log'', ''/var/log/secret.log'', ''/var/log/nginx.log'']
     = ''open /var/log/secret.log: permission denied ''"
  "opened_tailers example_lib cfg [''/var/log/apache.log'', ''/var/log/secret.log'', ''/var/log/nginx.log'']
     = [1, 2]"
  by (simp_all add: open_errors_def opened_tailers_def example_lib_def example_TailFile_def)

section \<open>The claims\<close>

subsection \<open>C1\<close>

text \<open>
  C1: classification is said to follow the priority tag, int field, float field, string
  field, with a key that matches no filter becoming a string field; in particular, with
  the int-field filter \<open>["response"]\<close> and the float-field filter \<open>["bytes"]\<close>, a line that
  yields \<open>response="200"\<close> and \<open>bytes="612"\<close> is said to place both keys into the fields.

  The source does not do so. The \<open>continue\<close> of the int block stands after the test of the
  match instead of inside it, as it does in the tag block, so that a key that does not
  match the int filter is dropped and the float and string filters are never asked once
  an int filter is set. On the input of the claim, \<open>Compile\<close> succeeds and \<open>ParseLine\<close>
  returns a measurement whose only field is \<open>response\<close>: \<open>bytes\<close> is in neither map.
\<close>

theorem ParseLine_int_filter_drops_float_key:
  "fst (Compile example_lib
          (example_Parser\<lparr>FieldKeysInt := [''response''], FieldKeysFloat := [''bytes'']\<rparr>)) = Return None
   \<and> ParseLine example_lib 0
        (snd (Compile example_lib
          (example_Parser\<lparr>FieldKeysInt := [''response''], FieldKeysFloat := [''bytes'']\<rparr>))) ''200 612''
      = Inr \<lparr>Name = ''grok'', Tags = Map.empty,
             Fields = [''response'' \<mapsto> StringValue ''200''], Time = 0\<rparr>"
  by (simp add: Compile_def compile_filters_def ParseLine_def NewMetric_def range_body_def example_lib_def example_Parser_def example_grammar_def example_CompileFilter_def
      Grammar_Parse_def example_pattern_def)

subsection \<open>C2\<close>

text \<open>
  C2: when the parser of the plugin has compiled, \<open>Start\<close> calls \<open>tail.TailFile\<close> once for
  every file the globs resolve to, in order, whatever the earlier calls returned
  (\<open>tail_calls tr\<close> is the list of resolved files, so no file is skipped and none is tried
  again). The messages of the failed calls, each followed by a space, are concatenated;
  \<open>Start\<close> returns nil when this string is empty, which is the case exactly when every
  file was opened, and otherwise the one error \<open>fmt.Errorf\<close> makes of the string. Every
  tailer that was opened is appended to \<open>tailers\<close> and has its receiver started, and
  \<open>Start\<close> stops or cleans up no tailer.
\<close>

theorem Start_aggregates_open_errors:
  assumes "GrokParser l = Some a" and "h a = Some p" and "Compile lib p = (Return None, p')"
  shows "\<exists>l' tr.
           Start lib x l h =
             (if open_errors lib (tail_config (FromBeginning l)) (resolved_files lib (Files l)) = []
              then Return None
              else Return (Some (fmt_Errorf lib
                     (open_errors lib (tail_config (FromBeginning l)) (resolved_files lib (Files l))))),
              l', h(a \<mapsto> p'), tr)
         \<and> (open_errors lib (tail_config (FromBeginning l)) (resolved_files lib (Files l)) = [])
             = (length (opened_tailers lib (tail_config (FromBeginning l)) (resolved_files lib (Files l)))
                = length (resolved_files lib (Files l)))
         \<and> tail_calls tr = resolved_files lib (Files l)
         \<and> tailers l' = tailers l @ opened_tailers lib (tail_config (FromBeginning l))
                                     (resolved_files lib (Files l))
         \<and> receivers tr = opened_tailers lib (tail_config (FromBeginning l))
                              (resolved_files lib (Files l))
         \<and> stopped tr = []"
proof -
  from Start_compiled(2) [of l a h p lib "Return None" p' x, OF assms refl]
  obtain tr where
    s: "Start lib x l h =
             (if open_errors lib (tail_config (FromBeginning l)) (resolved_files lib (Files l)) = []
              then Return None
              else Return (Some (fmt_Errorf lib
                     (open_errors lib (tail_config (FromBeginning l)) (resolved_files lib (Files l))))),
              l\<lparr>acc := x, parsers := [a],
                wg := wg l + length (opened_tailers lib (tail_config (FromBeginning l))
                                       (resolved_files lib (Files l))),
                tailers := tailers l @ opened_tailers lib (tail_config (FromBeginning l))
                                         (resolved_files lib (Files l))\<rparr>,
              h(a \<mapsto> p'), tr)"
    and pr: "tail_calls tr = resolved_files lib (Files l)"
      "receivers tr = opened_tailers lib (tail_config (FromBeginning l)) (resolved_files lib (Files l))"
      "stopped tr = []"
    by blast
  show ?thesis
    apply (rule exI [of _ "l\<lparr>acc := x, parsers := [a],
                wg := wg l + length (opened_tailers lib (tail_config (FromBeginning l))
                                       (resolved_files lib (Files l))),
                tailers := tailers l @ opened_tailers lib (tail_config (FromBeginning l))
                                         (resolved_files lib (Files l))\<rparr>"])
    apply (rule exI [of _ tr])
    apply (simp only: s pr open_errors_Nil_iff)
    apply simp
    done
qed

theorem Start_aggregates_open_errors_witness:
  "GrokParser example_plugin = Some 0 \<and> example_store 0 = Some example_Parser
   \<and> Compile example_lib example_Parser = (Return None, example_Parser\<lparr>g_grok := example_grammar\<rparr>)
   \<and> (\<exists>l' tr. Start example_lib () example_plugin example_store =
          (Return (Some (Err ''open /var/log/secret.log: permission denied '')), l',
           example_store(0 \<mapsto> example_Parser\<lparr>g_grok := example_grammar\<rparr>), tr)
        \<and> tail_calls tr = [''/var/log/apache.log'', ''/var/log/secret.log'', ''/var/log/nginx.log'']
        \<and> tailers l' = [1, 2] \<and> receivers tr = [1, 2] \<and> stopped tr = [])"
proof -
  have a: "GrokParser example_plugin = Some 0" by (simp add: example_plugin_def)
  have b: "example_store 0 = Some example_Parser" by (simp add: example_store_def)
  have f: "Files example_plugin = [''/var/log/*.log'']" "tailers example_plugin = []"
    by (simp_all add: example_plugin_def)
  have e: "fmt_Errorf example_lib = Err" by (simp add: example_lib_def)
  from Start_aggregates_open_errors [of example_plugin 0 example_store example_Parser example_lib
      "example_Parser\<lparr>g_grok := example_grammar\<rparr>" "()", OF a b example_Compile]
    a b example_Compile
  show ?thesis
    by (simp add: f example_resolved example_open e)
qed

subsection \<open>C3\<close>

text \<open>
  C3: with the grok engine of the spec, a line that the grammar of the parser does not
  match makes \<open>ParseLine\<close> return the ParseError. The result is the error alone: no
  measurement is built.
\<close>

theorem ParseLine_no_match_is_ParseError:
  assumes "grok_Parse lib = Grammar_Parse" and "g_grok p (Pattern p) line = None"
  shows "ParseLine lib now p line = Inl ParseError"
  using assms by (simp add: ParseLine_def Grammar_Parse_def)

theorem ParseLine_no_match_is_ParseError_witness:
  "grok_Parse example_lib = Grammar_Parse
   \<and> g_grok (example_Parser\<lparr>g_grok := example_grammar\<rparr>)
        (Pattern (example_Parser\<lparr>g_grok := example_grammar\<rparr>)) ''GET /index.html'' = None
   \<and> ParseLine example_lib 0 (example_Parser\<lparr>g_grok := example_grammar\<rparr>) ''GET /index.html''
       = Inl ParseError"
proof -
  have a: "grok_Parse example_lib = Grammar_Parse" by (simp add: example_lib_def)
  have b: "g_grok (example_Parser\<lparr>g_grok := example_grammar\<rparr>)
        (Pattern (example_Parser\<lparr>g_grok := example_grammar\<rparr>)) ''GET /index.html'' = None"
    by (simp add: example_Parser_def example_grammar_def)
  from ParseLine_no_match_is_ParseError [OF a b] a b show ?thesis by simp
qed

subsection \<open>C4\<close>

text \<open>
  C4: a line of the inline custom patterns that is not blank, is not a comment and has no
  fragment is said to make \<open>Compile\<close> fail with a CompileError and with nothing else.

  The source trims the line, skips blank lines and comments and splits at the first
  space, and then reads \<open>names[1]\<close> without looking at the length of the slice. For the
  custom pattern text \<open>NGUSER\<close>, which is one name without a fragment, the slice has one
  element and \<open>Compile\<close> panics with an index out of range: it returns no error at all.
\<close>

theorem Compile_missing_fragment_panics:
  "fst (Compile example_lib (example_Parser\<lparr>CustomPatterns := ''NGUSER''\<rparr>))
     = Panic ''runtime error: index out of range''"
  by (simp add: Compile_def addCustomPatterns_def Scanner_lines_def scan_body_def SplitN2_def
      TrimSpace_def space_runes_def dropCR_def MaxScanTokenSize_def example_lib_def example_Parser_def)

subsection \<open>C5\<close>

text \<open>
  C5: every compile failure at setup, the failure of a file glob included, is said to
  abort \<open>Start\<close>, which returns the error and starts no receiver for any session.

  For a file glob the source hands the error of \<open>globpath.Compile\<close> to \<open>log.Printf\<close> and
  does not return it. With the files \<open>/var/log/apache.log\<close> and \<open>[\<close>, of which the second
  does not compile, the first three effects of \<open>Start\<close> are the opening of the first file,
  the start of its receiver and the log line for the second: when the glob fails, a
  receiver is already running, and the error goes to the log. These effects come before
  \<open>Match\<close> is called on the value returned with the error (lemma
  \<open>Start_effects_before_Match\<close>); nothing is said here about that call.
\<close>

theorem Start_glob_failure_counterexample:
  "globpath_Compile example_lib ''['' = ([], Some (Err ''unexpected end of input''))
   \<and> take 3 (snd (snd (snd (Start example_lib ()
                (example_plugin\<lparr>Files := [''/var/log/apache.log'', ''['']\<rparr>) example_store))))
       = [TailFile_call ''/var/log/apache.log'' (tail_config False), Go_receiver 1,
          Log ''ERROR Glob [ failed to compile, unexpected end of input'']"
proof -
  define l where "l = example_plugin\<lparr>Files := [''/var/log/apache.log'', ''['']\<rparr>"
  have a: "GrokParser l = Some 0" by (simp add: l_def example_plugin_def)
  have b: "example_store 0 = Some example_Parser" by (simp add: example_store_def)
  have f: "Files l = ''/var/log/apache.log'' # ''['' # []" by (simp add: l_def)
  have fb: "FromBeginning l = False" by (simp add: l_def example_plugin_def)
  have c1: "globpath_Compile example_lib ''/var/log/apache.log'' = ([''/var/log/apache.log''], None)"
    by (simp add: example_lib_def example_globpath_Compile_def)
  have m1: "globpath_Match example_lib [''/var/log/apache.log''] = [''/var/log/apache.log'']"
    by (simp add: example_lib_def)
  have t1: "tail_TailFile example_lib ''/var/log/apache.log'' (tail_config (FromBeginning l)) = Inr 1"
    by (simp add: example_lib_def example_TailFile_def)
  have c2: "globpath_Compile example_lib ''['' = ([], Some (Err ''unexpected end of input''))"
    by (simp add: example_lib_def example_globpath_Compile_def)
  from Start_effects_before_Match [where h = example_store and a = 0 and x = "()",
      OF a b example_Compile f c1 m1 t1 c2] c2
  show ?thesis unfolding l_def [symmetric] by (simp add: fb)
qed

text \<open>
  C5, as amended: an error returned by \<open>Compile\<close> of the parser (from the grammar, the
  custom patterns or a key filter) aborts \<open>Start\<close> entirely: \<open>Start\<close> returns that error,
  calls \<open>tail.TailFile\<close> for no file, starts no receiver and leaves \<open>tailers\<close> as it was.
\<close>

theorem Start_parser_compile_failure_aborts:
  assumes "GrokParser l = Some a" and "h a = Some p" and "Compile lib p = (Return (Some e), p')"
  shows "Start lib x l h = (Return (Some e), l\<lparr>acc := x, parsers := [a]\<rparr>, h(a \<mapsto> p'), [])"
  using Start_compiled(1) [of l a h p lib "Return (Some e)" p' x, OF assms] by simp

theorem Start_parser_compile_failure_aborts_witness:
  "GrokParser example_plugin = Some 0
   \<and> [0 \<mapsto> example_Parser\<lparr>TagKeys := [''['']\<rparr>] 0 = Some (example_Parser\<lparr>TagKeys := [''['']\<rparr>)
   \<and> Compile example_lib (example_Parser\<lparr>TagKeys := [''['']\<rparr>)
        = (Return (Some (Err ''unexpected end of input'')),
           example_Parser\<lparr>TagKeys := [''[''], g_grok := example_grammar\<rparr>)
   \<and> Start example_lib () example_plugin [0 \<mapsto> example_Parser\<lparr>TagKeys := [''['']\<rparr>]
        = (Return (Some (Err ''unexpected end of input'')),
           example_plugin\<lparr>parsers := [0]\<rparr>,
           [0 \<mapsto> example_Parser\<lparr>TagKeys := [''[''], g_grok := example_grammar\<rparr>], [])"
proof -
  define bad where "bad = example_Parser\<lparr>TagKeys := [''['']\<rparr>"
  have a1: "GrokParser example_plugin = Some 0" by (simp add: example_plugin_def)
  have a2: "[0 \<mapsto> bad] 0 = Some bad" by simp
  have a3: "Compile example_lib bad = (Return (Some (Err ''unexpected end of input'')),
               example_Parser\<lparr>TagKeys := [''[''], g_grok := example_grammar\<rparr>)"
    by (simp add: bad_def Compile_def compile_filters_def example_lib_def example_Parser_def
        example_CompileFilter_def)
  have e: "example_plugin\<lparr>acc := ()\<rparr> = example_plugin" by simp
  from Start_parser_compile_failure_aborts [where h = "[0 \<mapsto> bad]" and a = 0 and x = "()", OF a1 a2 a3] a1 a2 a3
  show ?thesis unfolding bad_def [symmetric] by (simp add: e)
qed

subsection \<open>C6\<close>

text \<open>
  C6: when the reflection loop finds no parser, \<open>Start\<close> returns the error made of the
  text "ERROR: logparser input plugin: no parsers defined." and has no effect: it calls
  \<open>tail.TailFile\<close> for no file, and the plugin keeps its tailers.
\<close>

theorem Start_no_parsers:
  assumes "find_parsers l = []"
  shows "Start lib x l h =
           (Return (Some (fmt_Errorf lib ''ERROR: logparser input plugin: no parsers defined.'')),
            l\<lparr>acc := x, parsers := []\<rparr>, h, [])"
  using assms by (simp add: Start_def)

theorem Start_no_parsers_witness:
  "find_parsers (example_plugin\<lparr>GrokParser := None\<rparr>) = []
   \<and> Start example_lib () (example_plugin\<lparr>GrokParser := None\<rparr>) example_store =
       (Return (Some (Err ''ERROR: logparser input plugin: no parsers defined.'')),
        example_plugin\<lparr>GrokParser := None\<rparr>, example_store, [])"
proof -
  have a: "find_parsers (example_plugin\<lparr>GrokParser := None\<rparr>) = []"
    by (simp add: find_parsers_def)
  from Start_no_parsers [of "example_plugin\<lparr>GrokParser := None\<rparr>" example_lib "()" example_store, OF a] a show ?thesis
    by (simp add: example_lib_def example_plugin_def)
qed

subsection \<open>C7\<close>

text \<open>
  C7: for a parser that has a tag-key matcher and every capture whose name the matcher
  accepts, \<open>ParseLine\<close> places the value into the tags and nothing into the fields under
  that name, whatever the int, float and string matchers say about the name. A capture
  that reaches the classification has a non-empty name and a non-empty value: the others
  are discarded before it (section 3 of the spec), and C8 is about them.
\<close>

theorem ParseLine_tag_priority:
  assumes "tagKeys p = Some tm" and "tm k"
    and "grok_Parse lib (g_grok p) (Pattern p) line = Inr kvs"
    and "distinct (map fst kvs)"
    and "(k, v) \<in> set kvs"
    and "k \<noteq> []" and "v \<noteq> []"
  shows "\<exists>m. ParseLine lib now p line = Inr m \<and> Tags m k = Some v \<and> Fields m k = None"
proof -
  have look: "map_of kvs k = Some v" using assms(4,5) by simp
  have tg: "tag_match p k" using assms(1,2) by (simp add: tag_match_def)
  have t: "fst (range_values p kvs (Map.empty, Map.empty)) k = Some v"
    using assms(6,7) tg by (simp add: range_values_tags [OF assms(4)] look)
  have f: "snd (range_values p kvs (Map.empty, Map.empty)) k = None"
    using tg by (simp add: range_values_fields [OF assms(4)] look)
  show ?thesis by (simp add: ParseLine_Inr [OF assms(3)] t f)
qed

theorem ParseLine_tag_priority_witness:
  "tagKeys (snd (Compile example_lib (example_Parser\<lparr>TagKeys := [''bytes''], FieldKeysInt := [''bytes'']\<rparr>)))
     = Some (\<lambda>k. k \<in> set [''bytes''])
   \<and> fieldKeysInt (snd (Compile example_lib (example_Parser\<lparr>TagKeys := [''bytes''], FieldKeysInt := [''bytes'']\<rparr>)))
     = Some (\<lambda>k. k \<in> set [''bytes''])
   \<and> (\<exists>m. ParseLine example_lib 0
        (snd (Compile example_lib (example_Parser\<lparr>TagKeys := [''bytes''], FieldKeysInt := [''bytes'']\<rparr>)))
        ''200 612'' = Inr m
        \<and> Tags m ''bytes'' = Some ''612'' \<and> Fields m ''bytes'' = None)"
proof -
  define p where "p = snd (Compile example_lib (example_Parser\<lparr>TagKeys := [''bytes''], FieldKeysInt := [''bytes'']\<rparr>))"
  have p: "p = example_Parser\<lparr>TagKeys := [''bytes''], FieldKeysInt := [''bytes''], g_grok := example_grammar,
                         tagKeys := Some (\<lambda>k. k \<in> set [''bytes'']),
                         fieldKeysInt := Some (\<lambda>k. k \<in> set [''bytes''])\<rparr>"
    by (simp add: p_def example_Compile_tags)
  have a: "tagKeys p = Some (\<lambda>k. k \<in> set [''bytes''])" by (simp add: p)
  have a': "fieldKeysInt p = Some (\<lambda>k. k \<in> set [''bytes''])" by (simp add: p)
  have b: "(\<lambda>k. k \<in> set [''bytes'']) ''bytes''" by simp
  have c: "grok_Parse example_lib (g_grok p) (Pattern p) ''200 612''
             = Inr [(''response'', ''200''), (''bytes'', ''612'')]"
    by (simp add: p example_Parse example_Parser_sel)
  have d: "distinct (map fst [(''response'', ''200''), (''bytes'', ''612'')])" by simp
  have e: "(''bytes'', ''612'') \<in> set [(''response'', ''200''), (''bytes'', ''612'')]" by simp
  have f: "''bytes'' \<noteq> []" "''612'' \<noteq> []" by simp_all
  from ParseLine_tag_priority [OF a b c d e f, of 0] a a'
  show ?thesis unfolding p_def by simp
qed

subsection \<open>C8\<close>

text \<open>
  C8: for a line that the grammar matches, a capture whose name or whose value is the
  empty string is in neither the tags nor the fields of the measurement. The captures
  are the entries of a Go map, so their names are distinct.
\<close>

theorem ParseLine_empty_captures_excluded:
  assumes "grok_Parse lib (g_grok p) (Pattern p) line = Inr kvs"
    and "distinct (map fst kvs)"
    and "(k, v) \<in> set kvs"
    and "k = [] \<or> v = []"
  shows "\<exists>m. ParseLine lib now p line = Inr m \<and> Tags m k = None \<and> Fields m k = None"
proof -
  have look: "map_of kvs k = Some v" using assms(2,3) by simp
  have t: "fst (range_values p kvs (Map.empty, Map.empty)) k = None"
    using assms(4) by (auto simp: range_values_tags [OF assms(2)] look)
  have f: "snd (range_values p kvs (Map.empty, Map.empty)) k = None"
    using assms(4) by (auto simp: range_values_fields [OF assms(2)] look)
  show ?thesis by (simp add: ParseLine_Inr [OF assms(1)] t f)
qed

theorem ParseLine_empty_captures_excluded_witness:
  "grok_Parse example_lib example_grammar example_pattern ''304 -''
     = Inr [(''response'', ''304''), (''bytes'', [])]
   \<and> (\<exists>m. ParseLine example_lib 0 (example_Parser\<lparr>g_grok := example_grammar\<rparr>) ''304 -'' = Inr m
        \<and> Tags m ''bytes'' = None \<and> Fields m ''bytes'' = None)"
proof -
  define p where "p = example_Parser\<lparr>g_grok := example_grammar\<rparr>"
  have c: "grok_Parse example_lib (g_grok p) (Pattern p) ''304 -''
             = Inr [(''response'', ''304''), (''bytes'', [])]"
    by (simp add: p_def example_Parse example_Parser_sel)
  have d: "distinct (map fst [(''response'', ''304''), (''bytes'', [])])" by simp
  have e: "(''bytes'', []) \<in> set [(''response'', ''304''), (''bytes'', [])]" by simp
  have f: "''bytes'' = [] \<or> ([] :: string) = []" by simp
  from ParseLine_empty_captures_excluded [OF c d e f, of 0] example_Parse(2)
  show ?thesis unfolding p_def by simp
qed

subsection \<open>C9\<close>

text \<open>
  C9: two calls of \<open>ParseLine\<close> with the same compiled parser on the same line, for which
  the grok engine yields the same captures, return measurements with the same tags and
  the same fields. The two calls may differ in the time at which they run and in the
  order in which the \<open>range\<close> statement visits the captures, which Go does not fix.
\<close>

theorem ParseLine_deterministic:
  assumes "grok_Parse lib (g_grok p) (Pattern p) line = Inr kvs"
    and "grok_Parse lib' (g_grok p) (Pattern p) line = Inr kvs'"
    and "distinct (map fst kvs)" and "distinct (map fst kvs')"
    and "set kvs' = set kvs"
  shows "\<exists>m m'. ParseLine lib now p line = Inr m \<and> ParseLine lib' now' p line = Inr m'
           \<and> Tags m' = Tags m \<and> Fields m' = Fields m"
proof -
  have eq: "map_of kvs' = map_of kvs"
    using assms(3,4,5) by (simp add: map_of_inject_set)
  have t: "fst (range_values p kvs' (Map.empty, Map.empty)) = fst (range_values p kvs (Map.empty, Map.empty))"
    by (rule ext) (simp add: range_values_tags [OF assms(3)] range_values_tags [OF assms(4)] eq)
  have f: "snd (range_values p kvs' (Map.empty, Map.empty)) = snd (range_values p kvs (Map.empty, Map.empty))"
    by (rule ext) (simp add: range_values_fields [OF assms(3)] range_values_fields [OF assms(4)] eq)
  show ?thesis
    by (simp add: ParseLine_Inr [OF assms(1)] ParseLine_Inr [OF assms(2)] t f)
qed

theorem ParseLine_deterministic_witness:
  "grok_Parse example_lib example_grammar example_pattern ''200 612''
     = Inr [(''response'', ''200''), (''bytes'', ''612'')]
   \<and> grok_Parse example_lib_rev example_grammar example_pattern ''200 612''
     = Inr [(''bytes'', ''612''), (''response'', ''200'')]
   \<and> (\<exists>m m'. ParseLine example_lib 0
                 (snd (Compile example_lib (example_Parser\<lparr>TagKeys := [''response''], FieldKeysInt := []\<rparr>)))
                 ''200 612'' = Inr m
             \<and> ParseLine example_lib_rev 7
                 (snd (Compile example_lib (example_Parser\<lparr>TagKeys := [''response''], FieldKeysInt := []\<rparr>)))
                 ''200 612'' = Inr m'
             \<and> Tags m' = Tags m \<and> Fields m' = Fields m)"
proof -
  define p where "p = snd (Compile example_lib (example_Parser\<lparr>TagKeys := [''response''], FieldKeysInt := []\<rparr>))"
  have p: "p = example_Parser\<lparr>TagKeys := [''response''], FieldKeysInt := [], g_grok := example_grammar,
                         tagKeys := Some (\<lambda>k. k \<in> set [''response'']), fieldKeysInt := None\<rparr>"
    by (simp add: p_def example_Compile_tags)
  have a: "grok_Parse example_lib (g_grok p) (Pattern p) ''200 612''
             = Inr [(''response'', ''200''), (''bytes'', ''612'')]"
    by (simp add: p example_Parse example_Parser_sel)
  have b: "grok_Parse example_lib_rev (g_grok p) (Pattern p) ''200 612''
             = Inr [(''bytes'', ''612''), (''response'', ''200'')]"
    by (simp add: p example_Parse example_Parser_sel)
  have d: "distinct (map fst [(''response'', ''200''), (''bytes'', ''612'')])"
    "distinct (map fst [(''bytes'', ''612''), (''response'', ''200'')])" by simp_all
  have e: "set [(''bytes'', ''612''), (''response'', ''200'')]
            = set [(''response'', ''200''), (''bytes'', ''612'')]" by auto
  from ParseLine_deterministic [OF a b d e, of 0 7] example_Parse
  show ?thesis unfolding p_def by simp
qed

subsection \<open>C10\<close>

text \<open>
  C10: for a new parser, whose four matchers are nil, with four empty key-filter lists,
  \<open>Compile\<close> leaves the four matchers nil, and \<open>ParseLine\<close> then returns a measurement
  without tags in which every capture with a non-empty name and a non-empty value is a
  field holding the value as a string.
\<close>

theorem ParseLine_no_filters_all_string_fields:
  assumes "TagKeys p = []" "FieldKeysStr p = []" "FieldKeysInt p = []" "FieldKeysFloat p = []"
    and "tagKeys p = None" "fieldKeysStr p = None" "fieldKeysInt p = None" "fieldKeysFloat p = None"
    and "Compile lib p = (out, p')"
    and "grok_Parse lib (g_grok p') (Pattern p') line = Inr kvs"
    and "distinct (map fst kvs)"
  shows "tagKeys p' = None \<and> fieldKeysStr p' = None \<and> fieldKeysInt p' = None
         \<and> fieldKeysFloat p' = None
         \<and> (\<exists>m. ParseLine lib now p' line = Inr m \<and> Tags m = Map.empty
                \<and> (\<forall>k v. (k, v) \<in> set kvs \<and> k \<noteq> [] \<and> v \<noteq> [] \<longrightarrow> Fields m k = Some (StringValue v)))"
proof -
  obtain g' where p': "p' = p\<lparr>g_grok := g'\<rparr>"
    using Compile_no_lists [OF assms(1-4) assms(9)] by blast
  have un: "tagKeys p' = None" "fieldKeysStr p' = None" "fieldKeysInt p' = None" "fieldKeysFloat p' = None"
    using assms(5-8) by (simp_all add: p')
  have ntag: "\<And>k. \<not> tag_match p' k" by (simp add: tag_match_def un)
  have fld: "\<And>k. field_match p' k" by (simp add: field_match_def un)
  have t: "fst (range_values p' kvs (Map.empty, Map.empty)) = Map.empty"
    by (rule ext) (simp add: range_values_tags [OF assms(11)] ntag split: option.splits)
  have f: "\<And>k v. (k, v) \<in> set kvs \<Longrightarrow> k \<noteq> [] \<Longrightarrow> v \<noteq> [] \<Longrightarrow>
             snd (range_values p' kvs (Map.empty, Map.empty)) k = Some (StringValue v)"
    using assms(11) by (simp add: range_values_fields [OF assms(11)] ntag fld)
  show ?thesis
    using un f by (simp add: ParseLine_Inr [OF assms(10)] t)
qed

theorem ParseLine_no_filters_all_string_fields_witness:
  "Compile example_lib example_Parser = (Return None, example_Parser\<lparr>g_grok := example_grammar\<rparr>)
   \<and> grok_Parse example_lib example_grammar example_pattern ''200 612''
       = Inr [(''response'', ''200''), (''bytes'', ''612'')]
   \<and> tagKeys (example_Parser\<lparr>g_grok := example_grammar\<rparr>) = None
   \<and> fieldKeysStr (example_Parser\<lparr>g_grok := example_grammar\<rparr>) = None
   \<and> fieldKeysInt (example_Parser\<lparr>g_grok := example_grammar\<rparr>) = None
   \<and> fieldKeysFloat (example_Parser\<lparr>g_grok := example_grammar\<rparr>) = None
   \<and> (\<exists>m. ParseLine example_lib 0 (example_Parser\<lparr>g_grok := example_grammar\<rparr>) ''200 612'' = Inr m
         \<and> Tags m = Map.empty
         \<and> Fields m ''response'' = Some (StringValue ''200'')
         \<and> Fields m ''bytes'' = Some (StringValue ''612''))"
proof -
  define p where "p = example_Parser\<lparr>g_grok := example_grammar\<rparr>"
  have c: "Compile example_lib example_Parser = (Return None, p)"
    by (simp add: p_def example_Compile)
  have a: "grok_Parse example_lib (g_grok p) (Pattern p) ''200 612''
             = Inr [(''response'', ''200''), (''bytes'', ''612'')]"
    by (simp add: p_def example_Parse example_Parser_sel)
  have d: "distinct (map fst [(''response'', ''200''), (''bytes'', ''612'')])" by simp
  from ParseLine_no_filters_all_string_fields [OF example_Parser_sel(2-9) c a d, of 0] c example_Parse(1)
  show ?thesis unfolding p_def by auto
qed

end
